theory Spec2Isabelle
  imports Complex_Main
begin

section \<open>Python values and exceptions\<close>

text \<open>
  The values that reach the client are parsed JSON documents: \<^verbatim>\<open>None\<close>, booleans,
  integers, strings, lists and dictionaries with string keys. JSON floats are left out;
  a dictionary is an association list whose first binding of a key is the one in force.
  Strings are byte lists, so iteration over a string is iteration over code points only
  for ASCII text.
\<close>

datatype pyval =
    PyNone
  | PyBool bool
  | PyInt int
  | PyStr string
  | PyList "pyval list"
  | PyDict "(string \<times> pyval) list"

text \<open>
  \<^verbatim>\<open>class EmailException(Exception)\<close> of \<^verbatim>\<open>error.py\<close> stores the two arguments of its
  constructor in the attributes \<^verbatim>\<open>stats\<close> and \<^verbatim>\<open>message\<close>. The other constructors
  are the built-in exceptions that leave the functions of this client, each with the text
  of its \<^verbatim>\<open>str()\<close>. An exception raised inside the \<^verbatim>\<open>try\<close> of
  \<^verbatim>\<open>__http_req\<close> never leaves it as it is; only its \<^verbatim>\<open>str()\<close> is used.
\<close>

datatype pyexn =
    EmailException pyval pyval
  | TypeError string
  | ValueError string
  | KeyError string

definition quoted :: "string \<Rightarrow> string" where
  "quoted s = [CHR 0x27] @ s @ [CHR 0x27]"

fun type_name :: "pyval \<Rightarrow> string" where
  "type_name PyNone = ''NoneType''"
| "type_name (PyBool b) = ''bool''"
| "type_name (PyInt n) = ''int''"
| "type_name (PyStr s) = ''str''"
| "type_name (PyList xs) = ''list''"
| "type_name (PyDict kvs) = ''dict''"

definition dict_get :: "(string \<times> pyval) list \<Rightarrow> string \<Rightarrow> pyval" where
  \<comment> \<open>the binding of a key, \<^verbatim>\<open>None\<close> when there is none\<close>
  "dict_get kvs k = (case map_of kvs k of None \<Rightarrow> PyNone | Some v \<Rightarrow> v)"

definition kwarg :: "(string \<times> pyval) list \<Rightarrow> string \<Rightarrow> pyval" where
  \<comment> \<open>a keyword parameter whose default is \<^verbatim>\<open>None\<close>\<close>
  "kwarg kwargs k = dict_get kwargs k"

definition EmailException_init :: "(string \<times> pyval) list \<Rightarrow> pyexn" where
  \<comment> \<open>\<^verbatim>\<open>EmailException(**kwargs)\<close> against
      \<^verbatim>\<open>def __init__(self, stats: int = None, message: str = None)\<close>: a keyword that is
      not a parameter makes the call itself raise \<^verbatim>\<open>TypeError\<close>; the result is the
      exception that the enclosing \<^verbatim>\<open>raise\<close> statement propagates.\<close>
  "EmailException_init kwargs =
     (case filter (\<lambda>k. k \<notin> set [''stats'', ''message'']) (map fst kwargs) of
        [] \<Rightarrow> EmailException (kwarg kwargs ''stats'') (kwarg kwargs ''message'')
      | k # ks \<Rightarrow>
          TypeError (''EmailException.__init__() got an unexpected keyword argument '' @ quoted k))"

text \<open>\<^verbatim>\<open>data.get(k)\<close>: only a dictionary has the method; \<open>Inl m\<close> is an
  \<^verbatim>\<open>AttributeError\<close> whose \<^verbatim>\<open>str()\<close> is \<open>m\<close>.\<close>

fun py_get :: "pyval \<Rightarrow> string \<Rightarrow> string + pyval" where
  "py_get (PyDict kvs) k = Inr (dict_get kvs k)"
| "py_get v k = Inl (quoted (type_name v) @ '' object has no attribute '' @ quoted ''get'')"

section \<open>The world: remote service, clock and trace of effects\<close>

record request =
  req_method :: string
  req_url :: string
  req_headers :: "(string \<times> string) list"
  req_payload :: "pyval option"
  req_proxy :: "string option"
  req_timeout :: real

text \<open>
  What one \<^verbatim>\<open>session.request(...)\<close> does: it raises (connection failure, timeout; the
  string is the exception's \<^verbatim>\<open>str()\<close>), or it yields a response with a status and a
  body on which \<^verbatim>\<open>response.json()\<close> returns a value or raises.
\<close>

datatype body = Json pyval | NotJson string

datatype outcome = Raises string | Response int body

datatype event = Requested request | Slept real

text \<open>
  The \<open>n\<close>-th request issued gets \<open>service n\<close> and takes \<open>latency n\<close> seconds.
  \<open>clock\<close> is what \<^verbatim>\<open>time.time()\<close> reads (seconds, as a real number); \<open>trace\<close>
  records every request and every sleep in order.
\<close>

record world =
  service :: "nat \<Rightarrow> outcome"
  latency :: "nat \<Rightarrow> real"
  served :: nat
  clock :: real
  trace :: "event list"

definition session_request :: "request \<Rightarrow> world \<Rightarrow> outcome \<times> world" where
  "session_request rq w =
     (service w (served w),
      w\<lparr>served := Suc (served w),
        clock := clock w + latency w (served w),
        trace := trace w @ [Requested rq]\<rparr>)"

definition sleep :: "real \<Rightarrow> world \<Rightarrow> world" where
  \<comment> \<open>\<^verbatim>\<open>await asyncio.sleep(delay)\<close>; a delay that is not positive returns at once\<close>
  "sleep delay w = w\<lparr>clock := clock w + max 0 delay, trace := trace w @ [Slept delay]\<rparr>"

section \<open>The request primitive\<close>

text \<open>
  The body of the \<^verbatim>\<open>try\<close> of \<^verbatim>\<open>__http_req\<close> ends in one of three ways: the
  function returns \<^verbatim>\<open>data.get("result")\<close>, the loop continues (status other than 200),
  or an exception reaches \<^verbatim>\<open>except Exception as e\<close>; \<open>Caught m\<close> carries
  \<^verbatim>\<open>str(e)\<close>. The session is the one set by the constructor, which is never false.
\<close>

datatype attempt_result = Returned pyval | NextAttempt | Caught string

definition try_request :: "request \<Rightarrow> world \<Rightarrow> attempt_result \<times> world" where
  "try_request rq w =
     (case session_request rq w of
        (Raises e, w1) \<Rightarrow> (Caught e, w1)
      | (Response status b, w1) \<Rightarrow>
          if status = 200 then
            (case b of
               NotJson e \<Rightarrow> (Caught e, w1)
             | Json data \<Rightarrow>
                 (case py_get data ''result'' of
                    Inl e \<Rightarrow> (Caught e, w1)
                  | Inr v \<Rightarrow> (Returned v, w1)))
          else (NextAttempt, w1))"

fun for_attempts :: "request \<Rightarrow> int \<Rightarrow> nat list \<Rightarrow> world \<Rightarrow> (pyexn + pyval) \<times> world" where
  "for_attempts rq attempts [] w =
     (Inl (EmailException_init
            [(''status'', PyInt 500), (''message'', PyStr ''Failed after multiple attempts'')]), w)"
| "for_attempts rq attempts (attempt # rest) w =
     (case try_request rq w of
        (Returned v, w1) \<Rightarrow> (Inr v, w1)
      | (NextAttempt, w1) \<Rightarrow> for_attempts rq attempts rest w1
      | (Caught e, w1) \<Rightarrow>
          if int attempt = attempts - 1
          then (Inl (EmailException_init [(''status'', PyInt 500), (''message'', PyStr e)]), w1)
          else for_attempts rq attempts rest (sleep 1 w1))"

definition http_req :: "request \<Rightarrow> int \<Rightarrow> world \<Rightarrow> (pyexn + pyval) \<times> world" where
  \<comment> \<open>\<^verbatim>\<open>for attempt in range(attempts): ...\<close>\<close>
  "http_req rq attempts w = for_attempts rq attempts [0..<nat attempts] w"

section \<open>The records of \<^verbatim>\<open>models.py\<close>\<close>

text \<open>
  The interpreter's own conversions are not code of this client and are taken as
  parameters: \<open>str_of\<close> is \<^verbatim>\<open>str()\<close> on a value that is not a string,
  \<open>int_of_str\<close> is \<^verbatim>\<open>int()\<close> on a string (\<open>None\<close> where it raises
  \<^verbatim>\<open>ValueError\<close>), \<open>str_of_float\<close> formats a number of seconds.
\<close>

record runtime =
  str_of :: "pyval \<Rightarrow> string"
  int_of_str :: "string \<Rightarrow> int option"
  str_of_float :: "real \<Rightarrow> string"

definition format_value :: "runtime \<Rightarrow> pyval \<Rightarrow> string" where
  \<comment> \<open>a replacement field \<^verbatim>\<open>{x}\<close> of an f-string\<close>
  "format_value rt v = (case v of PyStr s \<Rightarrow> s | _ \<Rightarrow> str_of rt v)"

text \<open>\<^verbatim>\<open>d[k]\<close> with a string key.\<close>

fun py_getitem :: "pyval \<Rightarrow> string \<Rightarrow> pyexn + pyval" where
  "py_getitem (PyDict kvs) k =
     (case map_of kvs k of None \<Rightarrow> Inl (KeyError (quoted k)) | Some v \<Rightarrow> Inr v)"
| "py_getitem (PyList xs) k =
     Inl (TypeError ''list indices must be integers or slices, not str'')"
| "py_getitem (PyStr s) k =
     Inl (TypeError (''string indices must be integers, not '' @ quoted ''str''))"
| "py_getitem v k =
     Inl (TypeError (quoted (type_name v) @ '' object is not subscriptable''))"

text \<open>\<^verbatim>\<open>k in d\<close> with a string \<open>k\<close>: key of a dictionary, element of a list,
  substring of a string.\<close>

fun is_substring :: "string \<Rightarrow> string \<Rightarrow> bool" where
  "is_substring k [] = (k = [])"
| "is_substring k (c # cs) = (take (length k) (c # cs) = k \<or> is_substring k cs)"

fun py_in :: "string \<Rightarrow> pyval \<Rightarrow> pyexn + bool" where
  "py_in k (PyDict kvs) = Inr (k \<in> set (map fst kvs))"
| "py_in k (PyList xs) = Inr (PyStr k \<in> set xs)"
| "py_in k (PyStr s) = Inr (is_substring k s)"
| "py_in k v =
     Inl (TypeError (''argument of type '' @ quoted (type_name v) @ '' is not iterable''))"

text \<open>\<^verbatim>\<open>for x in data\<close>: the elements of a list, the keys of a dictionary, the
  characters of a string.\<close>

fun py_iter :: "pyval \<Rightarrow> pyexn + pyval list" where
  "py_iter (PyList xs) = Inr xs"
| "py_iter (PyDict kvs) = Inr (map (\<lambda>kv. PyStr (fst kv)) kvs)"
| "py_iter (PyStr s) = Inr (map (\<lambda>c. PyStr [c]) s)"
| "py_iter v = Inl (TypeError (quoted (type_name v) @ '' object is not iterable''))"

fun py_int :: "runtime \<Rightarrow> pyval \<Rightarrow> pyexn + int" where
  "py_int rt (PyInt n) = Inr n"
| "py_int rt (PyBool b) = Inr (if b then 1 else 0)"
| "py_int rt (PyStr s) =
     (case int_of_str rt s of
        Some n \<Rightarrow> Inr n
      | None \<Rightarrow> Inl (ValueError (''invalid literal for int() with base 10: '' @ quoted s)))"
| "py_int rt v =
     Inl (TypeError (''int() argument must be a string, a bytes-like object or a real number, not ''
            @ quoted (type_name v)))"

text \<open>
  The dataclasses. Field names carry the class as a prefix: \<open>ce_\<close> for
  \<^verbatim>\<open>CreateEmail\<close>, \<open>ids_id\<close> for \<^verbatim>\<open>Ids.id\<close>, \<open>id_mails\<close> for
  \<^verbatim>\<open>EmailIds.mails\<close>, \<open>em_\<close> for \<^verbatim>\<open>Email\<close>, \<open>mails\<close> for
  \<^verbatim>\<open>ViewEmail.mails\<close>. The annotations of the fields are not enforced by Python, so
  a field filled from the response holds whatever value the response had.
\<close>

record CreateEmail =
  ce_name :: pyval
  ce_domain :: string
  ce_email :: string
  ce_token :: pyval

record Ids =
  ids_id :: int

record EmailIds =
  id_mails :: "Ids list"

record Email =
  em_id :: pyval
  em_content :: pyval

record ViewEmail =
  mails :: "Email list"

definition CreateEmail_from_dict :: "runtime \<Rightarrow> pyval \<Rightarrow> pyexn + CreateEmail" where
  "CreateEmail_from_dict rt data =
     (case py_getitem data ''name'' of
        Inl e \<Rightarrow> Inl e
      | Inr n \<Rightarrow>
          (case py_getitem data ''name'' of
             Inl e \<Rightarrow> Inl e
           | Inr n' \<Rightarrow>
               (case py_getitem data ''token'' of
                  Inl e \<Rightarrow> Inl e
                | Inr t \<Rightarrow>
                    Inr \<lparr>ce_name = n,
                         ce_domain = ''developermail.com'',
                         ce_email = format_value rt n' @ ''@developermail.com'',
                         ce_token = t\<rparr>)))"

fun all_ids :: "runtime \<Rightarrow> pyval list \<Rightarrow> pyexn + Ids list" where
  \<comment> \<open>\<^verbatim>\<open>[Ids(id=int(id_str)) for id_str in data]\<close>\<close>
  "all_ids rt [] = Inr []"
| "all_ids rt (id_str # rest) =
     (case py_int rt id_str of
        Inl e \<Rightarrow> Inl e
      | Inr n \<Rightarrow>
          (case all_ids rt rest of
             Inl e \<Rightarrow> Inl e
           | Inr ids \<Rightarrow> Inr (\<lparr>ids_id = n\<rparr> # ids)))"

definition EmailIds_from_dict :: "runtime \<Rightarrow> pyval \<Rightarrow> pyexn + EmailIds" where
  "EmailIds_from_dict rt data =
     (case py_iter data of
        Inl e \<Rightarrow> Inl e
      | Inr xs \<Rightarrow>
          (case all_ids rt xs of
             Inl e \<Rightarrow> Inl e
           | Inr ids \<Rightarrow> Inr \<lparr>id_mails = ids\<rparr>))"

fun all_emails :: "Email list \<Rightarrow> pyval list \<Rightarrow> pyexn + Email list" where
  \<comment> \<open>the loop of \<^verbatim>\<open>ViewEmail.from_dict\<close>; the first argument is the list built so far\<close>
  "all_emails acc [] = Inr acc"
| "all_emails acc (d # ds) =
     (case py_in ''key'' d of
        Inl e \<Rightarrow> Inl e
      | Inr has_key \<Rightarrow>
          (case (if has_key then py_in ''value'' d else Inr False) of
             Inl e \<Rightarrow> Inl e
           | Inr both \<Rightarrow>
               if both then
                 (case py_getitem d ''key'' of
                    Inl e \<Rightarrow> Inl e
                  | Inr k \<Rightarrow>
                      (case py_getitem d ''value'' of
                         Inl e \<Rightarrow> Inl e
                       | Inr v \<Rightarrow> all_emails (acc @ [\<lparr>em_id = k, em_content = v\<rparr>]) ds))
               else Inl (ValueError ''Invalid format for email data dictionary'')))"

definition ViewEmail_from_dict :: "pyval \<Rightarrow> pyexn + ViewEmail" where
  "ViewEmail_from_dict data =
     (case py_iter data of
        Inl e \<Rightarrow> Inl e
      | Inr ds \<Rightarrow>
          (case all_emails [] ds of
             Inl e \<Rightarrow> Inl e
           | Inr ms \<Rightarrow> Inr \<lparr>mails = ms\<rparr>))"

section \<open>The client of \<^verbatim>\<open>email.py\<close>\<close>

record DeveloperEmail =
  base_url :: string

definition DeveloperEmail_init :: "string \<Rightarrow> DeveloperEmail" where
  "DeveloperEmail_init version = \<lparr>base_url = ''https://www.developermail.com/api/'' @ version\<rparr>"

text \<open>
  The three operations call the primitive with its defaults: no proxy, 10 seconds for
  each attempt, 3 attempts. The request each one builds is a definition of its own.
\<close>

definition mailbox_request :: "DeveloperEmail \<Rightarrow> request" where
  "mailbox_request self =
     \<lparr>req_method = ''PUT'',
      req_url = base_url self @ ''/mailbox'',
      req_headers = [(''accept'', ''application/json'')],
      req_payload = None,
      req_proxy = None,
      req_timeout = 10\<rparr>"

definition create_mail :: "runtime \<Rightarrow> DeveloperEmail \<Rightarrow> world \<Rightarrow> (pyexn + CreateEmail) \<times> world" where
  "create_mail rt self w =
     (case http_req (mailbox_request self) 3 w of
        (Inl e, w1) \<Rightarrow> (Inl e, w1)
      | (Inr data, w1) \<Rightarrow> (CreateEmail_from_dict rt data, w1))"

definition message_ids_request :: "DeveloperEmail \<Rightarrow> string \<Rightarrow> string \<Rightarrow> request" where
  "message_ids_request self mailbox_name token =
     \<lparr>req_method = ''GET'',
      req_url = base_url self @ ''/mailbox/'' @ mailbox_name,
      req_headers = [(''accept'', ''application/json''), (''X-MailboxToken'', token)],
      req_payload = None,
      req_proxy = None,
      req_timeout = 10\<rparr>"

definition get_message_ids ::
  "runtime \<Rightarrow> DeveloperEmail \<Rightarrow> string \<Rightarrow> string \<Rightarrow> world \<Rightarrow> (pyexn + EmailIds) \<times> world" where
  "get_message_ids rt self mailbox_name token w =
     (case http_req (message_ids_request self mailbox_name token) 3 w of
        (Inl e, w1) \<Rightarrow> (Inl e, w1)
      | (Inr data, w1) \<Rightarrow> (EmailIds_from_dict rt data, w1))"

definition messages_request :: "DeveloperEmail \<Rightarrow> string \<Rightarrow> string \<Rightarrow> pyval list \<Rightarrow> request" where
  "messages_request self mailbox_name token message_ids =
     \<lparr>req_method = ''POST'',
      req_url = base_url self @ ''/mailbox/'' @ mailbox_name @ ''/messages'',
      req_headers = [(''accept'', ''application/json''), (''X-MailboxToken'', token),
                     (''Content-Type'', ''application/json'')],
      req_payload = Some (PyDict [(''message_ids'', PyList message_ids)]),
      req_proxy = None,
      req_timeout = 10\<rparr>"

definition get_messages ::
  "DeveloperEmail \<Rightarrow> string \<Rightarrow> string \<Rightarrow> pyval list \<Rightarrow> world \<Rightarrow> (pyexn + ViewEmail) \<times> world" where
  "get_messages self mailbox_name token message_ids w =
     (case http_req (messages_request self mailbox_name token message_ids) 3 w of
        (Inl e, w1) \<Rightarrow> (Inl e, w1)
      | (Inr data, w1) \<Rightarrow> (ViewEmail_from_dict data, w1))"

text \<open>
  \<^verbatim>\<open>if obj:\<close> on an instance of a dataclass: the classes of \<^verbatim>\<open>models.py\<close> define
  neither \<^verbatim>\<open>__bool__\<close> nor \<^verbatim>\<open>__len__\<close>, so every instance is true.
\<close>

definition truthy :: "'a \<Rightarrow> bool" where
  "truthy obj = True"

text \<open>
  The \<^verbatim>\<open>while\<close> loop of \<^verbatim>\<open>wait_for_email\<close>. The first argument bounds the number
  of times the loop condition is evaluated; \<open>None\<close> says that the bound was reached
  before the loop ended.
\<close>

fun poll ::
  "nat \<Rightarrow> runtime \<Rightarrow> DeveloperEmail \<Rightarrow> string \<Rightarrow> string \<Rightarrow> real \<Rightarrow> real \<Rightarrow> real \<Rightarrow> world
     \<Rightarrow> ((pyexn + ViewEmail) \<times> world) option" where
  "poll 0 rt self mailbox_name token timeout check_interval start_time w = None"
| "poll (Suc fuel) rt self mailbox_name token timeout check_interval start_time w =
     (if clock w - start_time < timeout then
        (case get_message_ids rt self mailbox_name token w of
           (Inl e, w1) \<Rightarrow> Some (Inl e, w1)
         | (Inr message_ids, w1) \<Rightarrow>
             if truthy message_ids \<and> id_mails message_ids \<noteq> [] then
               (case get_messages self mailbox_name token
                       [PyInt (ids_id (last (id_mails message_ids)))] w1 of
                  (Inl e, w2) \<Rightarrow> Some (Inl e, w2)
                | (Inr messages, w2) \<Rightarrow>
                    if truthy messages then Some (Inr messages, w2)
                    else poll fuel rt self mailbox_name token timeout check_interval start_time
                           (sleep check_interval w2))
             else poll fuel rt self mailbox_name token timeout check_interval start_time
                    (sleep check_interval w1))
      else
        Some (Inl (EmailException_init
                     [(''status'', PyNone),
                      (''message'', PyStr (''Could not retrieve any message after ''
                                            @ str_of_float rt timeout @ '' seconds''))]), w))"

definition wait_for_email ::
  "nat \<Rightarrow> runtime \<Rightarrow> DeveloperEmail \<Rightarrow> string \<Rightarrow> string \<Rightarrow> real \<Rightarrow> real \<Rightarrow> world
     \<Rightarrow> ((pyexn + ViewEmail) \<times> world) option" where
  "wait_for_email fuel rt self mailbox_name token timeout check_interval w =
     poll fuel rt self mailbox_name token timeout check_interval (clock w) w"

section \<open>Concrete runs\<close>

text \<open>
  A runtime for the concrete runs below: \<^verbatim>\<open>int()\<close> reads a non-empty string of
  decimal digits; the two formatting functions return a fixed text, which no run below
  lets reach a result.
\<close>

fun decimal :: "nat \<Rightarrow> string \<Rightarrow> nat option" where
  "decimal acc [] = Some acc"
| "decimal acc (c # cs) =
     (if c \<in> set ''0123456789'' then decimal (10 * acc + (of_char c - 48)) cs else None)"

definition sample_runtime :: runtime where
  "sample_runtime =
     \<lparr>str_of = (\<lambda>v. ''<value>''),
      int_of_str = (\<lambda>s. if s = [] then None else map_option int (decimal 0 s)),
      str_of_float = (\<lambda>t. ''<seconds>'')\<rparr>"

definition initial_world :: "(nat \<Rightarrow> outcome) \<Rightarrow> world" where
  \<comment> \<open>nothing requested yet, the clock at 0, every request answered at once\<close>
  "initial_world s = \<lparr>service = s, latency = (\<lambda>n. 0), served = 0, clock = 0, trace = []\<rparr>"

definition client :: DeveloperEmail where
  "client = DeveloperEmail_init ''v1''"

definition unavailable :: "nat \<Rightarrow> outcome" where
  "unavailable n = Response 503 (Json PyNone)"

definition unreachable :: "nat \<Rightarrow> outcome" where
  "unreachable n = Raises ''Connection refused''"

definition two_failures_then_result :: "nat \<Rightarrow> outcome" where
  "two_failures_then_result n =
     (if n < 2 then Raises ''Connection reset''
      else Response 200 (Json (PyDict [(''result'', PyInt 7)])))"

definition empty_mailbox :: "nat \<Rightarrow> outcome" where
  "empty_mailbox n = Response 200 (Json (PyDict [(''result'', PyList [])]))"

definition one_id_no_message :: "nat \<Rightarrow> outcome" where
  \<comment> \<open>the list request finds the id "1"; the fetch of that id finds no message\<close>
  "one_id_no_message n =
     (if n = 0 then Response 200 (Json (PyDict [(''result'', PyList [PyStr ''1''])]))
      else Response 200 (Json (PyDict [(''result'', PyList [])])))"

definition malformed_record :: "nat \<Rightarrow> outcome" where
  "malformed_record n = Response 200 (Json (PyDict [(''result'', PyList [PyDict []])]))"

definition second_record_malformed :: "nat \<Rightarrow> outcome" where
  "second_record_malformed n =
     Response 200 (Json (PyDict [(''result'',
       PyList [PyDict [(''key'', PyInt 1), (''value'', PyStr ''a'')],
               PyDict [(''key'', PyInt 2)]])]))"

definition two_messages :: "nat \<Rightarrow> outcome" where
  "two_messages n =
     Response 200 (Json (PyDict [(''result'',
       PyList [PyDict [(''key'', PyInt 1), (''value'', PyStr ''a'')],
               PyDict [(''key'', PyInt 2), (''value'', PyStr ''b'')]])]))"

definition two_failures_then_list_body :: "nat \<Rightarrow> outcome" where
  \<comment> \<open>the third answer has status 200 and the JSON body \<^verbatim>\<open>[]\<close>, which is no object\<close>
  "two_failures_then_list_body n =
     (if n < 2 then Raises ''Connection reset'' else Response 200 (Json (PyList [])))"

definition two_failures_then_no_json :: "nat \<Rightarrow> outcome" where
  \<comment> \<open>the third answer has status 200 and a body that \<^verbatim>\<open>response.json()\<close> rejects\<close>
  "two_failures_then_no_json n =
     (if n < 2 then Raises ''Connection reset''
      else Response 200 (NotJson ''Attempt to decode JSON with unexpected mimetype''))"

definition one_of_two_messages :: "nat \<Rightarrow> outcome" where
  \<comment> \<open>the fetch answers with a single well-formed record, whatever ids were requested\<close>
  "one_of_two_messages n =
     Response 200 (Json (PyDict [(''result'',
       PyList [PyDict [(''key'', PyInt 1), (''value'', PyStr ''a'')]])]))"

definition null_record :: "nat \<Rightarrow> outcome" where
  \<comment> \<open>the fetch answers \<^verbatim>\<open>[null]\<close>: a record that is no JSON object\<close>
  "null_record n = Response 200 (Json (PyDict [(''result'', PyList [PyNone])]))"

definition new_mailbox :: "nat \<Rightarrow> outcome" where
  "new_mailbox n =
     Response 200 (Json (PyDict [(''result'',
       PyDict [(''name'', PyStr ''abc''), (''token'', PyStr ''t0'')])]))"

section \<open>Notions of the specification\<close>

text \<open>The exception that a call of the constructor with the keyword \<^verbatim>\<open>status\<close>
  raises in place of the \<^verbatim>\<open>EmailException\<close> it was to build.\<close>

definition unexpected_keyword :: pyexn where
  "unexpected_keyword =
     TypeError (''EmailException.__init__() got an unexpected keyword argument ''
                  @ quoted ''status'')"

text \<open>A result that is the specification's \<^verbatim>\<open>ServiceError\<close>, the
  \<^verbatim>\<open>EmailException\<close> of the code.\<close>

fun is_service_error :: "pyexn + 'a \<Rightarrow> bool" where
  "is_service_error (Inl (EmailException s m)) = True"
| "is_service_error r = False"

text \<open>A record of a fetch response that has both fields, and the message it stands for.\<close>

definition has_key_and_value :: "(string \<times> pyval) list \<Rightarrow> bool" where
  "has_key_and_value kvs = (''key'' \<in> set (map fst kvs) \<and> ''value'' \<in> set (map fst kvs))"

definition message_of :: "(string \<times> pyval) list \<Rightarrow> Email" where
  "message_of kvs = \<lparr>em_id = dict_get kvs ''key'', em_content = dict_get kvs ''value''\<rparr>"

text \<open>The \<open>k\<close> outcomes from the \<open>n\<close>-th on are responses with a status other than 200.\<close>

fun refused :: "(nat \<Rightarrow> outcome) \<Rightarrow> nat \<Rightarrow> nat \<Rightarrow> bool" where
  "refused s n 0 = True"
| "refused s n (Suc k) =
     ((case s n of Response status b \<Rightarrow> status \<noteq> 200 | Raises e \<Rightarrow> False) \<and> refused s (Suc n) k)"

section \<open>Auxiliary facts\<close>

lemmas run_defs =
  http_req_def try_request_def session_request_def sleep_def dict_get_def initial_world_def

lemma status_keyword_rejected:
  "EmailException_init ((''status'', v) # kwargs) = unexpected_keyword"
  by (simp add: EmailException_init_def unexpected_keyword_def)

lemma map_of_fst: "k \<in> set (map fst kvs) \<Longrightarrow> \<exists>v. map_of kvs k = Some v"
  by (induction kvs) auto

lemma all_emails_records:
  "all_emails acc (map PyDict records) =
     (if list_all has_key_and_value records then Inr (acc @ map message_of records)
      else Inl (ValueError ''Invalid format for email data dictionary''))"
proof (induction records arbitrary: acc)
  case Nil
  show ?case by simp
next
  case (Cons kvs records)
  show ?case
  proof (cases "has_key_and_value kvs")
    case True
    then have k: "''key'' \<in> set (map fst kvs)" and v: "''value'' \<in> set (map fst kvs)"
      by (simp_all add: has_key_and_value_def)
    obtain a where a: "map_of kvs ''key'' = Some a"
      using map_of_fst [OF k] by blast
    obtain b where b: "map_of kvs ''value'' = Some b"
      using map_of_fst [OF v] by blast
    have "all_emails acc (map PyDict (kvs # records)) =
            all_emails (acc @ [message_of kvs]) (map PyDict records)"
      using True a b by (simp add: has_key_and_value_def message_of_def dict_get_def)
    then show ?thesis using True Cons.IH [of "acc @ [message_of kvs]"] by simp
  next
    case False
    then show ?thesis by (auto simp: has_key_and_value_def)
  qed
qed

lemma try_request_refused:
  assumes "service w (served w) = Response status b" and "status \<noteq> 200"
  shows "try_request rq w =
           (NextAttempt, w\<lparr>served := Suc (served w),
                           clock := clock w + latency w (served w),
                           trace := trace w @ [Requested rq]\<rparr>)"
  using assms by (simp add: try_request_def session_request_def)

lemma for_attempts_refused:
  "refused (service w) (served w) (length as) \<Longrightarrow>
     fst (for_attempts rq attempts as w) = Inl unexpected_keyword
     \<and> trace (snd (for_attempts rq attempts as w)) = trace w @ replicate (length as) (Requested rq)"
proof (induction as arbitrary: w)
  case Nil
  show ?case by (simp add: status_keyword_rejected)
next
  case (Cons attempt rest)
  let ?w1 = "w\<lparr>served := Suc (served w), clock := clock w + latency w (served w),
               trace := trace w @ [Requested rq]\<rparr>"
  from Cons.prems obtain status b
    where r: "service w (served w) = Response status b" "status \<noteq> 200"
      and rest: "refused (service w) (Suc (served w)) (length rest)"
    by (auto split: outcome.splits)
  have step: "for_attempts rq attempts (attempt # rest) w = for_attempts rq attempts rest ?w1"
    by (simp add: try_request_refused [OF r])
  have "refused (service ?w1) (served ?w1) (length rest)"
    using rest by simp
  from Cons.IH [OF this] show ?case
    unfolding step by (simp add: replicate_app_Cons_same)
qed

section \<open>The request primitive: claims C3, C4 and C6\<close>

text \<open>
  C3. Every status other than 200 sends \<^verbatim>\<open>__http_req\<close> to its next attempt: the body
  is not read and there is no sleep, so a call whose attempts are all answered that way
  issues exactly \<open>attempts\<close> requests and leaves the loop. The claim has the call raise
  \<^verbatim>\<open>EmailException\<close> with status 500 and the message "Failed after multiple attempts"
  there. The code writes \<^verbatim>\<open>EmailException(status=500, message=...)\<close>, the constructor's
  parameter is named \<^verbatim>\<open>stats\<close>, and so every such call raises \<^verbatim>\<open>TypeError\<close>.
\<close>

theorem http_req_non_200_exhausted:
  assumes "refused (service w) (served w) (nat attempts)"
  shows "fst (http_req rq attempts w) = Inl unexpected_keyword
       \<and> trace (snd (http_req rq attempts w)) = trace w @ replicate (nat attempts) (Requested rq)"
  using for_attempts_refused [of w "[0..<nat attempts]" rq attempts] assms
  by (simp add: http_req_def)

theorem http_req_non_200_exhausted_witness:
  "refused unavailable 0 3
   \<and> fst (http_req (mailbox_request client) 3 (initial_world unavailable)) = Inl unexpected_keyword
   \<and> trace (snd (http_req (mailbox_request client) 3 (initial_world unavailable))) =
       [Requested (mailbox_request client), Requested (mailbox_request client),
        Requested (mailbox_request client)]"
proof -
  have r: "refused unavailable 0 3"
    by (simp add: unavailable_def numeral_3_eq_3)
  then have "refused (service (initial_world unavailable)) (served (initial_world unavailable)) (nat 3)"
    by (simp add: initial_world_def)
  from http_req_non_200_exhausted [OF this, of "mailbox_request client"] r show ?thesis
    by (simp add: initial_world_def numeral_3_eq_3)
qed

text \<open>
  C4. An attempt of \<^verbatim>\<open>__http_req\<close> that ends in an exception is followed by a sleep of
  1 second and the next attempt, unless it is the last one. The claim has the exception of
  the last attempt wrapped in an \<^verbatim>\<open>EmailException\<close> with status 500. With the default
  three attempts all ending in an exception, the code requests, sleeps 1, requests,
  sleeps 1, requests, and the constructor call in the handler then raises \<^verbatim>\<open>TypeError\<close>
  for its keyword \<^verbatim>\<open>status\<close>.
\<close>

theorem http_req_exception_on_final_attempt:
  assumes "service w (served w) = Raises e1"
    and "service w (Suc (served w)) = Raises e2"
    and "service w (Suc (Suc (served w))) = Raises e3"
  shows "fst (http_req rq 3 w) = Inl unexpected_keyword
       \<and> trace (snd (http_req rq 3 w)) =
           trace w @ [Requested rq, Slept 1, Requested rq, Slept 1, Requested rq]"
  using assms
  by (simp add: http_req_def try_request_def session_request_def sleep_def upt_rec
        status_keyword_rejected)

theorem http_req_exception_on_final_attempt_witness:
  "fst (http_req (mailbox_request client) 3 (initial_world unreachable)) = Inl unexpected_keyword
   \<and> trace (snd (http_req (mailbox_request client) 3 (initial_world unreachable))) =
       [Requested (mailbox_request client), Slept 1, Requested (mailbox_request client), Slept 1,
        Requested (mailbox_request client)]"
  using http_req_exception_on_final_attempt
          [of "initial_world unreachable" "''Connection refused''" "''Connection refused''"
              "''Connection refused''" "mailbox_request client"]
  by (simp add: initial_world_def unreachable_def)

text \<open>
  C6, as amended. With three attempts, a call of \<^verbatim>\<open>__http_req\<close> whose first two
  attempts end in a transport exception and whose third is answered with status 200 and
  a body that is a JSON object returns the value of that object's "result" field
  (\<^verbatim>\<open>None\<close> when the object has no such field) and raises nothing; it has slept
  1 second after each failed attempt. The claim as stated asks only for status 200 on the
  third attempt: when the body of that answer is JSON but no object, or is not JSON,
  \<^verbatim>\<open>data.get\<close> or \<^verbatim>\<open>response.json()\<close> raises inside the \<^verbatim>\<open>try\<close>, the
  attempt is the last one, and the call ends in an error.
\<close>

theorem http_req_succeeds_on_third_attempt:
  assumes "service w (served w) = Raises e1"
    and "service w (Suc (served w)) = Raises e2"
    and "service w (Suc (Suc (served w))) = Response 200 (Json (PyDict kvs))"
  shows "fst (http_req rq 3 w) = Inr (dict_get kvs ''result'')
       \<and> trace (snd (http_req rq 3 w)) =
           trace w @ [Requested rq, Slept 1, Requested rq, Slept 1, Requested rq]"
  using assms by (simp add: http_req_def try_request_def session_request_def sleep_def upt_rec)

theorem http_req_succeeds_on_third_attempt_witness:
  "fst (http_req (mailbox_request client) 3 (initial_world two_failures_then_result)) = Inr (PyInt 7)"
  using http_req_succeeds_on_third_attempt
          [of "initial_world two_failures_then_result" "''Connection reset''" "''Connection reset''"
              "[(''result'', PyInt 7)]" "mailbox_request client"]
  by (simp add: initial_world_def two_failures_then_result_def dict_get_def)

theorem http_req_third_attempt_200_without_object:
  "fst (http_req (mailbox_request client) 3 (initial_world two_failures_then_list_body))
     = Inl unexpected_keyword
   \<and> fst (http_req (mailbox_request client) 3 (initial_world two_failures_then_no_json))
     = Inl unexpected_keyword"
  by (simp add: run_defs upt_rec two_failures_then_list_body_def two_failures_then_no_json_def
        status_keyword_rejected)

section \<open>The three operations: claims C5, C7, C8 and C9\<close>

text \<open>
  C5, as amended. When the primitive hands \<^verbatim>\<open>get_messages\<close> a list of JSON objects,
  the call raises \<^verbatim>\<open>ValueError\<close> with the message "Invalid format for email data
  dictionary" whenever some object lacks a "key" or a "value" field, and returns no part of
  the batch; otherwise it returns one \<^verbatim>\<open>Email\<close> for every record of the response, in
  the order of the response. The world is the one the primitive left: the failure issues
  no further request and no sleep. The result does not depend on the ids requested.
  The claim as stated fails in three places, each shown after the theorem: the exception
  is not an \<^verbatim>\<open>EmailException\<close>; the ids requested are never compared with the
  response, so a response with fewer records than ids gives a shorter batch and no error;
  and a record that is no JSON object has neither field and raises \<^verbatim>\<open>TypeError\<close>
  at the membership test, not the "invalid format" error.
\<close>

theorem get_messages_all_or_ValueError:
  assumes "http_req (messages_request self mailbox_name token message_ids) 3 w
             = (Inr (PyList (map PyDict records)), w1)"
  shows "get_messages self mailbox_name token message_ids w =
           (if list_all has_key_and_value records
            then Inr \<lparr>mails = map message_of records\<rparr>
            else Inl (ValueError ''Invalid format for email data dictionary''), w1)"
  using assms by (simp add: get_messages_def ViewEmail_from_dict_def all_emails_records)

theorem get_messages_all_or_ValueError_witness:
  "fst (get_messages client ''box'' ''tok'' [PyInt 1, PyInt 2] (initial_world second_record_malformed))
     = Inl (ValueError ''Invalid format for email data dictionary'')"
proof -
  let ?rq = "messages_request client ''box'' ''tok'' [PyInt 1, PyInt 2]"
  let ?w = "initial_world second_record_malformed"
  have "fst (http_req ?rq 3 ?w) =
          Inr (PyList (map PyDict [[(''key'', PyInt 1), (''value'', PyStr ''a'')],
                                   [(''key'', PyInt 2)]]))"
    by (simp add: run_defs upt_rec second_record_malformed_def)
  then have "http_req ?rq 3 ?w =
          (Inr (PyList (map PyDict [[(''key'', PyInt 1), (''value'', PyStr ''a'')],
                                    [(''key'', PyInt 2)]])), snd (http_req ?rq 3 ?w))"
    by (simp add: prod_eq_iff)
  from get_messages_all_or_ValueError [OF this] show ?thesis
    by (simp add: has_key_and_value_def)
qed

theorem get_messages_departs_from_claim:
  "fst (get_messages client ''box'' ''tok'' [PyInt 1] (initial_world malformed_record))
     = Inl (ValueError ''Invalid format for email data dictionary'')
   \<and> \<not> is_service_error
         (fst (get_messages client ''box'' ''tok'' [PyInt 1] (initial_world malformed_record)))
   \<and> fst (get_messages client ''box'' ''tok'' [PyInt 1, PyInt 2]
             (initial_world one_of_two_messages))
     = Inr \<lparr>mails = [\<lparr>em_id = PyInt 1, em_content = PyStr ''a''\<rparr>]\<rparr>
   \<and> fst (get_messages client ''box'' ''tok'' [PyInt 1] (initial_world null_record))
     = Inl (TypeError (''argument of type '' @ quoted ''NoneType'' @ '' is not iterable''))"
  by (simp add: run_defs upt_rec get_messages_def ViewEmail_from_dict_def malformed_record_def
        one_of_two_messages_def null_record_def)

text \<open>
  C7. \<^verbatim>\<open>get_messages\<close> for the ids 1 and 2, handed the response
  \<^verbatim>\<open>[{"key":1,"value":"a"},{"key":2,"value":"b"}]\<close> by the primitive, returns a batch of
  exactly two \<^verbatim>\<open>Email\<close> records in the order of the response, with id 1 and content
  "a", then id 2 and content "b".
\<close>

theorem get_messages_two_records:
  assumes "http_req (messages_request self mailbox_name token [PyInt 1, PyInt 2]) 3 w
             = (Inr (PyList [PyDict [(''key'', PyInt 1), (''value'', PyStr ''a'')],
                             PyDict [(''key'', PyInt 2), (''value'', PyStr ''b'')]]), w1)"
  shows "get_messages self mailbox_name token [PyInt 1, PyInt 2] w =
           (Inr \<lparr>mails = [\<lparr>em_id = PyInt 1, em_content = PyStr ''a''\<rparr>,
                           \<lparr>em_id = PyInt 2, em_content = PyStr ''b''\<rparr>]\<rparr>, w1)"
  using assms by (simp add: get_messages_def ViewEmail_from_dict_def)

theorem get_messages_two_records_witness:
  "fst (get_messages client ''box'' ''tok'' [PyInt 1, PyInt 2] (initial_world two_messages))
     = Inr \<lparr>mails = [\<lparr>em_id = PyInt 1, em_content = PyStr ''a''\<rparr>,
                     \<lparr>em_id = PyInt 2, em_content = PyStr ''b''\<rparr>]\<rparr>"
proof -
  let ?rq = "messages_request client ''box'' ''tok'' [PyInt 1, PyInt 2]"
  let ?w = "initial_world two_messages"
  have "fst (http_req ?rq 3 ?w) =
          Inr (PyList [PyDict [(''key'', PyInt 1), (''value'', PyStr ''a'')],
                       PyDict [(''key'', PyInt 2), (''value'', PyStr ''b'')]])"
    by (simp add: run_defs upt_rec two_messages_def)
  then have "http_req ?rq 3 ?w =
          (Inr (PyList [PyDict [(''key'', PyInt 1), (''value'', PyStr ''a'')],
                        PyDict [(''key'', PyInt 2), (''value'', PyStr ''b'')]]),
           snd (http_req ?rq 3 ?w))"
    by (simp add: prod_eq_iff)
  from get_messages_two_records [OF this] show ?thesis by simp
qed

text \<open>
  C8. When the service answers the list request with an empty array of ids,
  \<^verbatim>\<open>get_message_ids\<close> returns an \<^verbatim>\<open>EmailIds\<close> with no id and raises nothing.
\<close>

theorem get_message_ids_empty_mailbox:
  assumes "http_req (message_ids_request self mailbox_name token) 3 w = (Inr (PyList []), w1)"
  shows "get_message_ids rt self mailbox_name token w = (Inr \<lparr>id_mails = []\<rparr>, w1)"
  using assms by (simp add: get_message_ids_def EmailIds_from_dict_def)

theorem get_message_ids_empty_mailbox_witness:
  "fst (get_message_ids sample_runtime client ''box'' ''tok'' (initial_world empty_mailbox))
     = Inr \<lparr>id_mails = []\<rparr>"
proof -
  let ?rq = "message_ids_request client ''box'' ''tok''"
  let ?w = "initial_world empty_mailbox"
  have "fst (http_req ?rq 3 ?w) = Inr (PyList [])"
    by (simp add: run_defs upt_rec empty_mailbox_def)
  then have "http_req ?rq 3 ?w = (Inr (PyList []), snd (http_req ?rq 3 ?w))"
    by (simp add: prod_eq_iff)
  from get_message_ids_empty_mailbox [OF this] show ?thesis by simp
qed

text \<open>
  C9. Every \<^verbatim>\<open>create_mail\<close> that returns a \<^verbatim>\<open>CreateEmail\<close> has stored the constant
  "developermail.com" in its domain field, and its email field is the name, formatted
  as the f-string formats it, followed by "@" and that domain.
\<close>

theorem create_mail_address:
  assumes "create_mail rt self w = (Inr mailbox, w1)"
  shows "ce_domain mailbox = ''developermail.com''
       \<and> ce_email mailbox = format_value rt (ce_name mailbox) @ ''@'' @ ce_domain mailbox"
  using assms
  by (auto simp: create_mail_def CreateEmail_from_dict_def split: prod.splits sum.splits)

theorem create_mail_address_witness:
  "fst (create_mail sample_runtime client (initial_world new_mailbox)) =
     Inr \<lparr>ce_name = PyStr ''abc'', ce_domain = ''developermail.com'',
          ce_email = ''abc@developermail.com'', ce_token = PyStr ''t0''\<rparr>
   \<and> ce_email \<lparr>ce_name = PyStr ''abc'', ce_domain = ''developermail.com'',
          ce_email = ''abc@developermail.com'', ce_token = PyStr ''t0''\<rparr> =
       format_value sample_runtime (PyStr ''abc'') @ ''@'' @ ''developermail.com''"
proof -
  let ?m = "\<lparr>ce_name = PyStr ''abc'', ce_domain = ''developermail.com'',
             ce_email = ''abc@developermail.com'', ce_token = PyStr ''t0''\<rparr>"
  let ?w = "initial_world new_mailbox"
  have r: "fst (create_mail sample_runtime client ?w) = Inr ?m"
    by (simp add: run_defs upt_rec create_mail_def CreateEmail_from_dict_def new_mailbox_def
          format_value_def)
  then have "create_mail sample_runtime client ?w =
               (Inr ?m, snd (create_mail sample_runtime client ?w))"
    by (simp add: prod_eq_iff)
  from create_mail_address [OF this] r show ?thesis by simp
qed

section \<open>Waiting for a message: claims C1, C2 and C10\<close>

text \<open>
  C1. \<^verbatim>\<open>wait_for_email\<close> lists the ids and, when the list is not empty, fetches the
  last id only. The claim has it return if and only if that fetch yields at least one
  message, and sleep and poll again otherwise. The code tests \<^verbatim>\<open>if messages:\<close> on the
  \<^verbatim>\<open>ViewEmail\<close> that \<^verbatim>\<open>get_messages\<close> returned, which is true of every instance:
  where the list request finds the id "1" and the fetch of that id finds no message, the
  call returns the empty batch after these two requests, without a sleep.
\<close>

theorem wait_for_email_returns_empty_batch:
  "map_option fst (wait_for_email (Suc fuel) sample_runtime client ''box'' ''tok'' 60 5
                     (initial_world one_id_no_message))
     = Some (Inr \<lparr>mails = []\<rparr>)
   \<and> map_option (\<lambda>r. trace (snd r))
        (wait_for_email (Suc fuel) sample_runtime client ''box'' ''tok'' 60 5
           (initial_world one_id_no_message))
     = Some [Requested (message_ids_request client ''box'' ''tok''),
             Requested (messages_request client ''box'' ''tok'' [PyInt 1])]"
  by (simp add: run_defs upt_rec wait_for_email_def get_message_ids_def get_messages_def
        EmailIds_from_dict_def ViewEmail_from_dict_def truthy_def sample_runtime_def
        one_id_no_message_def)

text \<open>
  C2. The claim has a wait that never finds a message end, once the time elapsed at the
  top of the loop has reached the timeout, in an \<^verbatim>\<open>EmailException\<close> whose status is
  \<^verbatim>\<open>None\<close>. With a mailbox that stays empty, a timeout of 2 seconds and an interval of
  1 second, the loop polls at 0 and at 1 second and leaves at 2 seconds, not before; the
  call \<^verbatim>\<open>EmailException(status=None, message=...)\<close> then raises \<^verbatim>\<open>TypeError\<close>,
  the constructor's parameter being named \<^verbatim>\<open>stats\<close>.
\<close>

theorem wait_for_email_timeout_raises_TypeError:
  "map_option fst (wait_for_email (Suc (Suc (Suc fuel))) sample_runtime client ''box'' ''tok'' 2 1
                     (initial_world empty_mailbox))
     = Some (Inl unexpected_keyword)
   \<and> map_option (\<lambda>r. clock (snd r))
        (wait_for_email (Suc (Suc (Suc fuel))) sample_runtime client ''box'' ''tok'' 2 1
           (initial_world empty_mailbox))
     = Some 2
   \<and> wait_for_email (Suc (Suc 0)) sample_runtime client ''box'' ''tok'' 2 1
        (initial_world empty_mailbox) = None"
  by (simp add: run_defs upt_rec wait_for_email_def get_message_ids_def
        EmailIds_from_dict_def truthy_def sample_runtime_def empty_mailbox_def
        status_keyword_rejected)

text \<open>
  C10. Called with a timeout that is not positive, \<^verbatim>\<open>wait_for_email\<close> never enters its
  loop: it issues no request and does not sleep, so the world is left as it was. The
  claim has the call raise the timeout \<^verbatim>\<open>EmailException\<close>; the constructor call
  with the keyword \<^verbatim>\<open>status\<close> raises \<^verbatim>\<open>TypeError\<close> in its place.
\<close>

theorem wait_for_email_nonpositive_timeout:
  assumes "timeout \<le> 0"
  shows "wait_for_email (Suc fuel) rt self mailbox_name token timeout check_interval w
           = Some (Inl unexpected_keyword, w)"
  using assms by (simp add: wait_for_email_def status_keyword_rejected)

theorem wait_for_email_nonpositive_timeout_witness:
  "wait_for_email 1 sample_runtime client ''box'' ''tok'' 0 5 (initial_world empty_mailbox)
     = Some (Inl unexpected_keyword, initial_world empty_mailbox)"
  using wait_for_email_nonpositive_timeout
          [of 0 0 sample_runtime client "''box''" "''tok''" 5 "initial_world empty_mailbox"]
  by simp

end
